theory Spec2Isabelle
  imports Main
begin

section \<open>Values and events on the socket\<close>

text \<open>
  The payload of a \<^verbatim>\<open>socket.emit(name, payload)\<close> is a JavaScript value. Only the
  shapes the component builds are needed: \<^verbatim>\<open>null\<close>, strings, numbers and object
  literals (an ordered list of key/value pairs).
\<close>

datatype jsval = JNull | JStr string | JNum int | JObj "(string \<times> jsval) list"

text \<open>One call of \<^verbatim>\<open>socket.emit\<close>: the event name and its argument.\<close>

record emitted =
  event :: string
  payload :: jsval

text \<open>The type \<^verbatim>\<open>'X' | 'O'\<close>.\<close>

datatype mark = SymX | SymO

fun mark_str :: "mark \<Rightarrow> string" where
  "mark_str SymX = ''X''"
| "mark_str SymO = ''O''"

text \<open>A value of type \<^verbatim>\<open>'X' | 'O' | null\<close> as it is serialised in a payload.\<close>

fun mark_val :: "mark option \<Rightarrow> jsval" where
  "mark_val None = JNull"
| "mark_val (Some m) = JStr (mark_str m)"

section \<open>The component's state\<close>

text \<open>
  \<^verbatim>\<open>interface RoomState { board: (string | null)[]; players: string[];
  turn: 'X' | 'O'; winnerLine?: number[] }\<close>.
  A cell is \<open>None\<close> for \<^verbatim>\<open>null\<close>; an absent \<^verbatim>\<open>winnerLine\<close> is \<open>None\<close>.
\<close>

record RoomState =
  board :: "string option list"
  players :: "string list"
  turn :: mark
  winnerLine :: "int list option"

text \<open>
  The five \<^verbatim>\<open>useState\<close> cells of \<^verbatim>\<open>App\<close>, and the value of \<^verbatim>\<open>symbol\<close> that the
  socket handlers now registered closed over: the handlers are created inside the effect
  of lines 36 to 53 and see the \<^verbatim>\<open>symbol\<close> of the render that effect belongs to.
\<close>

record App =
  roomId :: string
  joined :: bool
  symbol :: "mark option"
  state :: RoomState
  status :: string
  captured :: "mark option"

text \<open>
  The initial values passed to \<^verbatim>\<open>useState\<close> (lines 30 to 34); the handlers of the
  first render close over the initial \<^verbatim>\<open>symbol\<close>, which is \<^verbatim>\<open>null\<close>.
\<close>

definition initial :: App where
  "initial =
     \<lparr> roomId = '''',
       joined = False,
       symbol = None,
       state = \<lparr> board = replicate 9 None, players = [], turn = SymX, winnerLine = None \<rparr>,
       status = ''Waiting for players...'',
       captured = None \<rparr>"

section \<open>JavaScript primitives used by the component\<close>

text \<open>
  \<^verbatim>\<open>xs[i]\<close> for a number \<open>i\<close>: the element when \<open>i\<close> is an index of the array,
  \<^verbatim>\<open>undefined\<close> (here \<open>None\<close>) otherwise.
\<close>

definition js_index :: "'a list \<Rightarrow> int \<Rightarrow> 'a option" where
  "js_index xs i = (if 0 \<le> i \<and> nat i < length xs then Some (xs ! nat i) else None)"

text \<open>
  Truthiness of \<^verbatim>\<open>state.board[idx]\<close>, a value of type \<^verbatim>\<open>string | null | undefined\<close>:
  \<^verbatim>\<open>undefined\<close>, \<^verbatim>\<open>null\<close> and the empty string are falsy, every other string is truthy.
\<close>

fun truthy_cell :: "string option option \<Rightarrow> bool" where
  "truthy_cell None = False"
| "truthy_cell (Some None) = False"
| "truthy_cell (Some (Some s)) = (s \<noteq> [])"

text \<open>
  White space and line terminators removed by \<^verbatim>\<open>String.prototype.trim\<close>, for the
  code units below 256 that a \<open>char\<close> can hold: TAB, LF, VT, FF, CR, SP and NBSP.
\<close>

definition js_whitespace :: "char \<Rightarrow> bool" where
  "js_whitespace ch = (of_char ch \<in> {9, 10, 11, 12, 13, 32, 160 :: nat})"

definition trim :: "string \<Rightarrow> string" where
  "trim s = rev (dropWhile js_whitespace (rev (dropWhile js_whitespace s)))"

text \<open>\<^verbatim>\<open>xs.includes(v)\<close> on an array of integers.\<close>

definition js_includes :: "int list \<Rightarrow> int \<Rightarrow> bool" where
  "js_includes xs v = List.member xs v"

section \<open>Socket handlers (lines 37 to 51)\<close>

text \<open>
  A state setter replaces one cell and leaves the others as they are. The handlers of
  \<^verbatim>\<open>state\<close> and \<^verbatim>\<open>gameOver\<close> read \<^verbatim>\<open>symbol\<close> from their closure, that is, the captured
  value, not the cell. The effect depends on \<^verbatim>\<open>[symbol]\<close>: after a render in which
  \<^verbatim>\<open>symbol\<close> has changed it removes the handlers and registers new ones, which close over
  the new value. A message that arrives after \<^verbatim>\<open>setSymbol\<close> and before that effect has
  run is handled with the old value.
\<close>

definition on_joined :: "mark \<Rightarrow> App \<Rightarrow> App" where
  "on_joined s c = c\<lparr> symbol := Some s, joined := True, status := ''Joined as '' @ mark_str s \<rparr>"

definition on_full :: "App \<Rightarrow> App" where
  "on_full c = c\<lparr> status := ''Room is full'' \<rparr>"

definition on_state :: "RoomState \<Rightarrow> App \<Rightarrow> App" where
  "on_state room c =
     c\<lparr> state := room,
        status := (if Some (turn room) = captured c then ''Your turn''
                   else ''Opponent's turn'') \<rparr>"

definition on_gameOver :: "mark option \<Rightarrow> bool \<Rightarrow> App \<Rightarrow> App" where
  "on_gameOver winner disconnected c =
     (if disconnected then c\<lparr> status := ''Opponent disconnected'' \<rparr>
      else if winner = None then c\<lparr> status := ''Draw!'' \<rparr>
      else c\<lparr> status := (if winner = captured c then ''You win!'' else ''You lose.'') \<rparr>)"

text \<open>The effect runs again: the handlers registered from now on close over the current symbol.\<close>

definition effect :: "App \<Rightarrow> App" where
  "effect c = c\<lparr> captured := symbol c \<rparr>"

section \<open>User operations (lines 55 to 66)\<close>

text \<open>
  Each operation returns the component's state after it and the list of events it emitted.
  None of the three changes the state; \<^verbatim>\<open>setRoomId\<close> is the input field's handler.
\<close>

definition joinRoom :: "App \<Rightarrow> App \<times> emitted list" where
  "joinRoom c =
     (if trim (roomId c) \<noteq> [] then (c, [\<lparr> event = ''join'', payload = JStr (roomId c) \<rparr>])
      else (c, []))"

definition play :: "App \<Rightarrow> int \<Rightarrow> App \<times> emitted list" where
  "play c idx =
     (if \<not> joined c \<or> truthy_cell (js_index (board (state c)) idx)
         \<or> Some (turn (state c)) \<noteq> symbol c
      then (c, [])
      else (c, [\<lparr> event = ''play'',
                  payload = JObj [(''roomId'', JStr (roomId c)),
                                  (''index'', JNum idx),
                                  (''symbol'', mark_val (symbol c))] \<rparr>]))"

definition reset :: "App \<Rightarrow> App \<times> emitted list" where
  "reset c = (c, [\<lparr> event = ''reset'', payload = JStr (roomId c) \<rparr>])"

definition setRoomId :: "string \<Rightarrow> App \<Rightarrow> App" where
  "setRoomId v c = c\<lparr> roomId := v \<rparr>"

section \<open>The component as a transition system\<close>

text \<open>
  A message from the server is one of the four events a handler is registered for, or an
  event of another name, for which no handler exists.
\<close>

datatype server_msg =
    Joined mark
  | Full
  | State RoomState
  | GameOver "mark option" bool
  | Unhandled string

definition receive :: "server_msg \<Rightarrow> App \<Rightarrow> App" where
  "receive m c =
     (case m of
        Joined s \<Rightarrow> on_joined s c
      | Full \<Rightarrow> on_full c
      | State room \<Rightarrow> on_state room c
      | GameOver winner disconnected \<Rightarrow> on_gameOver winner disconnected c
      | Unhandled name \<Rightarrow> c)"

text \<open>
  Everything that can happen to the component: a user operation, a server message, or a
  run of the effect that registers the handlers anew.
\<close>

datatype action =
    JoinRoom
  | Play int
  | Reset
  | SetRoomId string
  | Recv server_msg
  | Effect

definition step :: "App \<Rightarrow> action \<Rightarrow> App \<times> emitted list" where
  "step c a =
     (case a of
        JoinRoom \<Rightarrow> joinRoom c
      | Play idx \<Rightarrow> play c idx
      | Reset \<Rightarrow> reset c
      | SetRoomId v \<Rightarrow> (setRoomId v c, [])
      | Recv m \<Rightarrow> (receive m c, [])
      | Effect \<Rightarrow> (effect c, []))"

text \<open>A sequence of actions: the final state and every event emitted on the way, in order.\<close>

fun run :: "App \<Rightarrow> action list \<Rightarrow> App \<times> emitted list" where
  "run c [] = (c, [])"
| "run c (a # as) =
     (case step c a of (c1, es1) \<Rightarrow> (case run c1 as of (c2, es2) \<Rightarrow> (c2, es1 @ es2)))"

fun is_joined_msg :: "action \<Rightarrow> bool" where
  "is_joined_msg (Recv (Joined s)) = True"
| "is_joined_msg a = False"

text \<open>The value stored under a key of an object literal.\<close>

fun field :: "jsval \<Rightarrow> string \<Rightarrow> jsval option" where
  "field (JObj kvs) k = map_of kvs k"
| "field v k = None"

section \<open>Rendering the board (lines 94 to 101)\<close>

text \<open>The props passed to one \<^verbatim>\<open>Cell\<close>; \<open>onClick\<close> holds the index given to \<^verbatim>\<open>play\<close>.\<close>

record CellProps =
  "value" :: "string option"
  onClick :: int
  highlight :: bool

text \<open>\<^verbatim>\<open>state.winnerLine?.includes(i) ?? false\<close>\<close>

definition cell_highlight :: "RoomState \<Rightarrow> nat \<Rightarrow> bool" where
  "cell_highlight st i =
     (case winnerLine st of None \<Rightarrow> False | Some line \<Rightarrow> js_includes line (int i))"

definition cells :: "RoomState \<Rightarrow> CellProps list" where
  "cells st =
     map (\<lambda>(cell, i). \<lparr> value = cell, onClick = int i, highlight = cell_highlight st i \<rparr>)
         (zip (board st) [0 ..< length (board st)])"

section \<open>The HTTP collaborator\<close>

datatype http_method = GET | POST

text \<open>The arguments of one call of \<^verbatim>\<open>fetch\<close>; without options the method is GET.\<close>

record request =
  url :: string
  "method" :: http_method
  headers :: "(string \<times> string) list"
  body :: "string option"

text \<open>
  A rejected promise: the request failed, the response body is not JSON, or
  \<^verbatim>\<open>JSON.stringify\<close> threw a \<^verbatim>\<open>TypeError\<close> (on a BigInt or a cyclic object).
\<close>

datatype http_error = NetworkError | JsonSyntaxError | StringifyTypeError

text \<open>
  \<^verbatim>\<open>`${baseUrl}/...`\<close>: the environment variable is a string, or \<^verbatim>\<open>undefined\<close> when it
  is not configured, which the template prints as such.
\<close>

fun template :: "string option \<Rightarrow> string \<Rightarrow> string" where
  "template None path = ''undefined'' @ path"
| "template (Some b) path = b @ path"

text \<open>
  The network and the JSON codec are parameters: \<open>net\<close> answers a request with the
  response body or fails, \<open>parse\<close> is \<^verbatim>\<open>res.json()\<close> and \<open>stringify\<close> is
  \<^verbatim>\<open>JSON.stringify\<close>, which throws (\<open>Inl\<close>), yields \<^verbatim>\<open>undefined\<close> (\<open>Inr None\<close>, for
  \<^verbatim>\<open>undefined\<close>, a function or a symbol) or yields a string. Each function returns the
  requests it issued and its result. In \<^verbatim>\<open>sendMove\<close> the options object, and with it
  \<^verbatim>\<open>JSON.stringify(moveData)\<close>, is evaluated before \<^verbatim>\<open>fetch\<close> is called: when it throws
  no request is issued, and a \<^verbatim>\<open>body\<close> that is \<^verbatim>\<open>undefined\<close> is a request without body.
\<close>

definition fetchGameStatus ::
  "(request \<Rightarrow> http_error + string) \<Rightarrow> (string \<Rightarrow> 'j option) \<Rightarrow> string option
     \<Rightarrow> request list \<times> (http_error + 'j)" where
  "fetchGameStatus net parse baseUrl =
     (let req = \<lparr> url = template baseUrl ''/status'', method = GET, headers = [], body = None \<rparr>
      in ([req],
          case net req of
            Inl e \<Rightarrow> Inl e
          | Inr res \<Rightarrow> (case parse res of None \<Rightarrow> Inl JsonSyntaxError | Some v \<Rightarrow> Inr v)))"

definition sendMove ::
  "(request \<Rightarrow> http_error + string) \<Rightarrow> (string \<Rightarrow> 'j option)
     \<Rightarrow> ('m \<Rightarrow> http_error + string option)
     \<Rightarrow> string option \<Rightarrow> 'm \<Rightarrow> request list \<times> (http_error + 'j)" where
  "sendMove net parse stringify baseUrl moveData =
     (case stringify moveData of
        Inl e \<Rightarrow> ([], Inl e)
      | Inr serialised \<Rightarrow>
          (let req = \<lparr> url = template baseUrl ''/move'', method = POST,
                        headers = [(''Content-Type'', ''application/json'')],
                        body = serialised \<rparr>
           in ([req],
               case net req of
                 Inl e \<Rightarrow> Inl e
               | Inr res \<Rightarrow>
                   (case parse res of None \<Rightarrow> Inl JsonSyntaxError | Some v \<Rightarrow> Inr v))))"

section \<open>Facts about the primitives\<close>

lemma js_index_in_range:
  "0 \<le> i \<Longrightarrow> nat i < length xs \<Longrightarrow> js_index xs i = Some (xs ! nat i)"
  by (simp add: js_index_def)

lemma falsy_cell_iff: "\<not> truthy_cell (Some v) \<longleftrightarrow> v = None \<or> v = Some []"
  by (cases v) simp_all

lemma trim_nonempty_iff: "trim s \<noteq> [] \<longleftrightarrow> (\<exists>ch \<in> set s. \<not> js_whitespace ch)"
proof -
  have "trim s \<noteq> [] \<longleftrightarrow> (\<exists>ch \<in> set (dropWhile js_whitespace s). \<not> js_whitespace ch)"
    unfolding trim_def by (simp add: dropWhile_eq_Nil_conv)
  also have "\<dots> \<longleftrightarrow> (\<exists>ch \<in> set s. \<not> js_whitespace ch)"
  proof
    assume "\<exists>ch \<in> set (dropWhile js_whitespace s). \<not> js_whitespace ch"
    then show "\<exists>ch \<in> set s. \<not> js_whitespace ch"
      by (meson set_dropWhileD)
  next
    assume "\<exists>ch \<in> set s. \<not> js_whitespace ch"
    then have "dropWhile js_whitespace s \<noteq> []"
      by (simp add: dropWhile_eq_Nil_conv)
    then have "\<not> js_whitespace (hd (dropWhile js_whitespace s))"
      by (rule hd_dropWhile)
    moreover from \<open>dropWhile js_whitespace s \<noteq> []\<close>
    have "hd (dropWhile js_whitespace s) \<in> set (dropWhile js_whitespace s)"
      by simp
    ultimately show "\<exists>ch \<in> set (dropWhile js_whitespace s). \<not> js_whitespace ch" by blast
  qed
  finally show ?thesis .
qed

lemma trim_r1: "trim ''r1'' = ''r1''"
  by (simp add: trim_def js_whitespace_def)

lemma cells_nth:
  assumes "i < length (board st)"
  shows "cells st ! i = \<lparr> value = board st ! i, onClick = int i, highlight = cell_highlight st i \<rparr>"
  using assms by (simp add: cells_def)

lemma cell_highlight_iff:
  "cell_highlight st i \<longleftrightarrow> (\<exists>line. winnerLine st = Some line \<and> int i \<in> set line)"
  by (simp add: cell_highlight_def js_includes_def split: option.split)

text \<open>
  Outside the board \<^verbatim>\<open>state.board[idx]\<close> is \<^verbatim>\<open>undefined\<close>, which the guard of
  \<^verbatim>\<open>play\<close> takes for an empty cell.
\<close>

lemma play_out_of_range:
  assumes "idx < 0 \<or> length (board (state c)) \<le> nat idx"
  shows "snd (play c idx) = [] \<longleftrightarrow> \<not> joined c \<or> Some (turn (state c)) \<noteq> symbol c"
proof -
  from assms have "js_index (board (state c)) idx = None"
    by (auto simp add: js_index_def)
  then show ?thesis by (simp add: play_def)
qed

section \<open>Facts about the transition system\<close>

lemma user_operation_keeps_state:
  "fst (joinRoom c) = c" "fst (play c idx) = c" "fst (reset c) = c"
  by (simp_all add: joinRoom_def play_def reset_def)

lemma room_full_status_only_from_full:
  assumes "status (receive m c) = ''Room is full''" and "status c \<noteq> ''Room is full''"
  shows "m = Full"
proof (cases m)
  case (Joined s)
  with assms show ?thesis by (cases s) (simp_all add: receive_def on_joined_def)
next
  case Full
  then show ?thesis .
next
  case (State room)
  with assms show ?thesis by (simp add: receive_def on_state_def split: if_splits)
next
  case (GameOver w d)
  with assms show ?thesis by (simp add: receive_def on_gameOver_def split: if_splits)
next
  case (Unhandled n)
  with assms show ?thesis by (simp add: receive_def)
qed

lemma step_emits_cases:
  assumes "e \<in> set (snd (step c a))"
  shows "(a = JoinRoom \<and> e = \<lparr> event = ''join'', payload = JStr (roomId c) \<rparr>)
       \<or> (\<exists>idx s. a = Play idx \<and> symbol c = Some s \<and> joined c \<and>
             e = \<lparr> event = ''play'',
                   payload = JObj [(''roomId'', JStr (roomId c)), (''index'', JNum idx),
                                   (''symbol'', JStr (mark_str s))] \<rparr>)
       \<or> (a = Reset \<and> e = \<lparr> event = ''reset'', payload = JStr (roomId c) \<rparr>)"
proof (cases a)
  case JoinRoom
  with assms show ?thesis by (simp add: step_def joinRoom_def split: if_splits)
next
  case (Play idx)
  with assms have "joined c" and "Some (turn (state c)) = symbol c"
    and "e = \<lparr> event = ''play'',
               payload = JObj [(''roomId'', JStr (roomId c)), (''index'', JNum idx),
                               (''symbol'', mark_val (symbol c))] \<rparr>"
    by (simp_all add: step_def play_def split: if_splits)
  moreover from this have "mark_val (symbol c) = JStr (mark_str (turn (state c)))"
    by (metis mark_val.simps(2))
  ultimately show ?thesis using Play by (metis)
next
  case Reset
  with assms show ?thesis by (simp add: step_def reset_def)
next
  case (SetRoomId v)
  with assms show ?thesis by (simp add: step_def)
next
  case (Recv m)
  with assms show ?thesis by (simp add: step_def)
next
  case Effect
  with assms show ?thesis by (simp add: step_def)
qed

lemma run_emits_from_step:
  "e \<in> set (snd (run c as)) \<Longrightarrow> \<exists>c1 a. a \<in> set as \<and> e \<in> set (snd (step c1 a))"
proof (induction as arbitrary: c)
  case Nil
  then show ?case by simp
next
  case (Cons a as)
  obtain c1 es1 where s: "step c a = (c1, es1)" by (cases "step c a")
  obtain c2 es2 where r: "run c1 as = (c2, es2)" by (cases "run c1 as")
  from Cons.prems s r have "e \<in> set es1 \<or> e \<in> set es2" by simp
  then show ?case
  proof
    assume "e \<in> set es1"
    with s have "e \<in> set (snd (step c a))" by simp
    then show ?thesis by auto
  next
    assume "e \<in> set es2"
    with r have "e \<in> set (snd (run c1 as))" by simp
    from Cons.IH [OF this] show ?thesis by auto
  qed
qed

lemma play_carries_own_symbol:
  assumes "e \<in> set (snd (play c idx))"
  shows "field (payload e) ''symbol'' = Some (mark_val (symbol c))"
  using assms by (auto simp add: play_def split: if_splits)

lemma step_play_carries_own_symbol:
  assumes "e \<in> set (snd (step c a))" and "event e = ''play''"
  shows "field (payload e) ''symbol'' = Some (mark_val (symbol c))"
proof (cases a)
  case (Play idx)
  with assms(1) have "e \<in> set (snd (play c idx))" by (simp add: step_def)
  then show ?thesis by (rule play_carries_own_symbol)
qed (use assms in \<open>auto simp add: step_def joinRoom_def reset_def split: if_splits\<close>)

lemma step_keeps_symbol:
  assumes "\<not> is_joined_msg a"
  shows "symbol (fst (step c a)) = symbol c"
proof (cases a)
  case (Recv m)
  with assms show ?thesis
    by (cases m)
       (simp_all add: step_def receive_def on_full_def on_state_def on_gameOver_def)
qed (simp_all add: step_def joinRoom_def play_def reset_def setRoomId_def effect_def)

text \<open>
  What the \<^verbatim>\<open>gameOver\<close> handler does, in terms of the symbol it captured; when the
  captured symbol is the current one, the win message goes to the winner.
\<close>

lemma gameOver_status_captured:
  "receive (GameOver winner disconnected) c =
     c\<lparr> status :=
          (if disconnected then ''Opponent disconnected''
           else if winner = None then ''Draw!''
           else if winner = captured c then ''You win!''
           else ''You lose.'') \<rparr>"
  by (simp add: receive_def on_gameOver_def)

lemma gameOver_status_in_sync:
  assumes "captured c = symbol c"
  shows "status (receive (GameOver winner disconnected) c) =
     (if disconnected then ''Opponent disconnected''
      else if winner = None then ''Draw!''
      else if winner = symbol c then ''You win!''
      else ''You lose.'')"
  using assms by (simp add: gameOver_status_captured)

lemma effect_in_sync: "captured (effect c) = symbol (effect c)"
  by (simp add: effect_def)

lemma run_play_carries_granted:
  assumes "\<forall>a \<in> set as. \<not> is_joined_msg a"
    and "e \<in> set (snd (run c as))" and "event e = ''play''"
  shows "field (payload e) ''symbol'' = Some (mark_val (symbol c))"
  using assms
proof (induction as arbitrary: c)
  case Nil
  then show ?case by simp
next
  case (Cons a as)
  obtain c1 es1 where s: "step c a = (c1, es1)" by (cases "step c a")
  obtain c2 es2 where r: "run c1 as = (c2, es2)" by (cases "run c1 as")
  from Cons.prems(1) have keep: "symbol c1 = symbol c"
    using step_keeps_symbol [of a c] s by simp
  from Cons.prems(2) s r have "e \<in> set es1 \<or> e \<in> set es2" by simp
  then show ?case
  proof
    assume "e \<in> set es1"
    with s have "e \<in> set (snd (step c a))" by simp
    then show ?thesis using Cons.prems(3) by (rule step_play_carries_own_symbol)
  next
    assume "e \<in> set es2"
    with r have "e \<in> set (snd (run c1 as))" by simp
    with Cons.IH [of c1] Cons.prems(1,3) keep show ?thesis by simp
  qed
qed

section \<open>The guard of \<^verbatim>\<open>play\<close>\<close>

text \<open>
  C1. For every index \<open>idx\<close> of a cell of the local board, \<^verbatim>\<open>play(idx)\<close> emits a
  \<^verbatim>\<open>play\<close> intent exactly when the session is joined, the cell at \<open>idx\<close> is empty
  (it holds \<^verbatim>\<open>null\<close> or a string without characters, the two values the guard takes
  for falsy) and the local turn equals the session's own symbol. In every other case
  nothing is emitted, and in all cases the local state is unchanged.
\<close>

theorem play_guard:
  assumes "0 \<le> idx" and "nat idx < length (board (state c))"
  shows "fst (play c idx) = c \<and>
     snd (play c idx) =
       (if joined c
           \<and> (board (state c) ! nat idx = None \<or> board (state c) ! nat idx = Some '''')
           \<and> symbol c = Some (turn (state c))
        then [\<lparr> event = ''play'',
                payload = JObj [(''roomId'', JStr (roomId c)), (''index'', JNum idx),
                                (''symbol'', JStr (mark_str (turn (state c))))] \<rparr>]
        else [])"
proof -
  have cell: "js_index (board (state c)) idx = Some (board (state c) ! nat idx)"
    using assms by (rule js_index_in_range)
  have own: "Some (turn (state c)) \<noteq> symbol c \<longleftrightarrow> symbol c \<noteq> Some (turn (state c))"
    by auto
  show ?thesis
    unfolding play_def cell own falsy_cell_iff [symmetric]
    by (simp del: truthy_cell.simps)
qed

theorem play_guard_witness:
  "snd (play (initial\<lparr> joined := True, symbol := Some SymX \<rparr>) 4) =
     [\<lparr> event = ''play'',
        payload = JObj [(''roomId'', JStr ''''), (''index'', JNum 4), (''symbol'', JStr ''X'')] \<rparr>]
   \<and> snd (play initial 4) = []
   \<and> snd (play (initial\<lparr> joined := True, symbol := Some SymO \<rparr>) 4) = []"
  using play_guard [of 4 "initial\<lparr> joined := True, symbol := Some SymX \<rparr>"]
        play_guard [of 4 initial]
        play_guard [of 4 "initial\<lparr> joined := True, symbol := Some SymO \<rparr>"]
  by (simp add: initial_def)

section \<open>What the component emits\<close>

text \<open>
  C2. Every intent the component emits carries exactly the data of the message contract:
  \<^verbatim>\<open>join\<close> carries the room identifier and nothing else (as the event's argument),
  \<^verbatim>\<open>play\<close> carries an object with exactly the keys \<^verbatim>\<open>roomId\<close>, \<^verbatim>\<open>index\<close> and
  \<^verbatim>\<open>symbol\<close>, holding the room identifier, the index played and the session's own
  symbol, and \<^verbatim>\<open>reset\<close> carries the room identifier and nothing else.
\<close>

theorem intents_carry_contract_fields:
  "\<forall>e \<in> set (snd (step c a)).
     (event e = ''join'' \<and> a = JoinRoom \<and> payload e = JStr (roomId c))
   \<or> (event e = ''play'' \<and>
        (\<exists>idx s. a = Play idx \<and> symbol c = Some s \<and>
           payload e = JObj [(''roomId'', JStr (roomId c)), (''index'', JNum idx),
                             (''symbol'', JStr (mark_str s))]))
   \<or> (event e = ''reset'' \<and> a = Reset \<and> payload e = JStr (roomId c))"
proof
  fix e assume "e \<in> set (snd (step c a))"
  from step_emits_cases [OF this] show
    "(event e = ''join'' \<and> a = JoinRoom \<and> payload e = JStr (roomId c))
   \<or> (event e = ''play'' \<and>
        (\<exists>idx s. a = Play idx \<and> symbol c = Some s \<and>
           payload e = JObj [(''roomId'', JStr (roomId c)), (''index'', JNum idx),
                             (''symbol'', JStr (mark_str s))]))
   \<or> (event e = ''reset'' \<and> a = Reset \<and> payload e = JStr (roomId c))"
    by (elim disjE exE conjE) simp_all
qed

theorem intents_carry_contract_fields_witness:
  "snd (step (initial\<lparr> roomId := ''r1'' \<rparr>) JoinRoom)
     = [\<lparr> event = ''join'', payload = JStr ''r1'' \<rparr>]
   \<and> snd (step (initial\<lparr> roomId := ''r1'', joined := True, symbol := Some SymX \<rparr>) (Play 4))
     = [\<lparr> event = ''play'',
          payload = JObj [(''roomId'', JStr ''r1''), (''index'', JNum 4),
                          (''symbol'', JStr ''X'')] \<rparr>]
   \<and> snd (step (initial\<lparr> roomId := ''r1'' \<rparr>) Reset)
     = [\<lparr> event = ''reset'', payload = JStr ''r1'' \<rparr>]"
proof -
  let ?c = "initial\<lparr> roomId := ''r1'' \<rparr>"
  let ?d = "initial\<lparr> roomId := ''r1'', joined := True, symbol := Some SymX \<rparr>"
  obtain j where j: "snd (step ?c JoinRoom) = [j]" and "event j = ''join''"
    by (simp add: step_def joinRoom_def initial_def trim_r1)
  obtain p where p: "snd (step ?d (Play 4)) = [p]" and "event p = ''play''"
    by (simp add: step_def play_def initial_def js_index_def)
  obtain r where r: "snd (step ?c Reset) = [r]" and "event r = ''reset''"
    by (simp add: step_def reset_def)
  from intents_carry_contract_fields [of ?c JoinRoom] j \<open>event j = ''join''\<close>
  have "payload j = JStr ''r1''" by (simp add: initial_def)
  with \<open>event j = ''join''\<close> have "j = \<lparr> event = ''join'', payload = JStr ''r1'' \<rparr>" by simp
  moreover
  from intents_carry_contract_fields [of ?d "Play 4"] p \<open>event p = ''play''\<close>
  have "payload p = JObj [(''roomId'', JStr ''r1''), (''index'', JNum 4),
                          (''symbol'', JStr ''X'')]" by (simp add: initial_def)
  with \<open>event p = ''play''\<close>
  have "p = \<lparr> event = ''play'',
              payload = JObj [(''roomId'', JStr ''r1''), (''index'', JNum 4),
                              (''symbol'', JStr ''X'')] \<rparr>" by simp
  moreover
  from intents_carry_contract_fields [of ?c Reset] r \<open>event r = ''reset''\<close>
  have "payload r = JStr ''r1''" by (simp add: initial_def)
  with \<open>event r = ''reset''\<close> have "r = \<lparr> event = ''reset'', payload = JStr ''r1'' \<rparr>" by simp
  ultimately show ?thesis using j p r by simp
qed

text \<open>
  C3. Whatever sequence of user operations and server messages the component goes
  through, from any state, every event it emits over the socket is named \<^verbatim>\<open>join\<close>,
  \<^verbatim>\<open>play\<close> or \<^verbatim>\<open>reset\<close>.
\<close>

theorem emits_only_join_play_reset:
  "\<forall>e \<in> set (snd (run c as)). event e = ''join'' \<or> event e = ''play'' \<or> event e = ''reset''"
proof
  fix e assume "e \<in> set (snd (run c as))"
  then obtain c1 a where "e \<in> set (snd (step c1 a))"
    using run_emits_from_step by blast
  from step_emits_cases [OF this]
  show "event e = ''join'' \<or> event e = ''play'' \<or> event e = ''reset''"
    by (elim disjE exE conjE) simp_all
qed

theorem emits_only_join_play_reset_witness:
  "map event (snd (run (initial\<lparr> roomId := ''r1'' \<rparr>)
                      [JoinRoom, Recv (Joined SymX), Play 0, Recv (Unhandled ''ping''), Reset]))
     = [''join'', ''play'', ''reset'']"
  using emits_only_join_play_reset
    [of "initial\<lparr> roomId := ''r1'' \<rparr>"
        "[JoinRoom, Recv (Joined SymX), Play 0, Recv (Unhandled ''ping''), Reset]"]
  by (simp add: step_def joinRoom_def play_def reset_def receive_def on_joined_def
        initial_def trim_r1 js_index_def)

section \<open>Server messages\<close>


text \<open>
  C5. On \<^verbatim>\<open>full\<close> the component sets the status \<^verbatim>\<open>Room is full\<close> and changes nothing
  else: the joined flag, the own symbol, the room state and the room identifier stay as
  they were. No other rejection is shown: an event without a handler changes nothing, a
  user operation never changes the component's state (whether its intent is sent or
  dropped by a guard), and the status \<^verbatim>\<open>Room is full\<close> appears through no message but
  \<^verbatim>\<open>full\<close>.
\<close>

theorem full_sets_status_only:
  "receive Full c = c\<lparr> status := ''Room is full'' \<rparr>
   \<and> joined (receive Full c) = joined c
   \<and> symbol (receive Full c) = symbol c
   \<and> state (receive Full c) = state c
   \<and> roomId (receive Full c) = roomId c
   \<and> receive (Unhandled name) c = c
   \<and> fst (joinRoom c) = c \<and> fst (play c idx) = c \<and> fst (reset c) = c
   \<and> (status (receive m c) = ''Room is full'' \<and> status c \<noteq> ''Room is full'' \<longrightarrow> m = Full)"
  using room_full_status_only_from_full [of m c]
  by (simp add: receive_def on_full_def user_operation_keeps_state)

theorem full_sets_status_only_witness:
  "receive Full initial = initial\<lparr> status := ''Room is full'' \<rparr>
   \<and> \<not> joined (receive Full initial)
   \<and> symbol (receive Full initial) = None
   \<and> board (state (receive Full initial)) = replicate 9 None
   \<and> status (receive Full initial) = ''Room is full'' \<and> status initial \<noteq> ''Room is full''"
  using full_sets_status_only [of initial "''x''" 0 Full]
  by (simp add: initial_def)

text \<open>
  C6, as amended. On \<^verbatim>\<open>joined{symbol}\<close> the component records the received symbol as
  its own and marks the session as joined; every \<^verbatim>\<open>play\<close> intent it emits afterwards,
  until another \<^verbatim>\<open>joined\<close> message is received, carries exactly the symbol granted.
\<close>

theorem joined_grants_symbol:
  "symbol (receive (Joined s) c) = Some s
   \<and> joined (receive (Joined s) c)
   \<and> ((\<forall>a \<in> set as. \<not> is_joined_msg a) \<longrightarrow>
        (\<forall>e \<in> set (snd (run (receive (Joined s) c) as)).
           event e = ''play'' \<longrightarrow> field (payload e) ''symbol'' = Some (JStr (mark_str s))))"
proof -
  have own: "symbol (receive (Joined s) c) = Some s" and j: "joined (receive (Joined s) c)"
    by (simp_all add: receive_def on_joined_def)
  have "field (payload e) ''symbol'' = Some (JStr (mark_str s))"
    if "\<forall>a \<in> set as. \<not> is_joined_msg a"
      and "e \<in> set (snd (run (receive (Joined s) c) as))" and "event e = ''play''" for e
    using run_play_carries_granted [OF that] own by simp
  with own j show ?thesis by blast
qed

theorem joined_grants_symbol_witness:
  "symbol (receive (Joined SymO) initial) = Some SymO
   \<and> joined (receive (Joined SymO) initial)
   \<and> snd (run (receive (Joined SymO) initial)
             [Recv (State \<lparr> board = replicate 9 None, players = [''a'', ''b''], turn = SymO,
                             winnerLine = None \<rparr>),
              Play 4])
     = [\<lparr> event = ''play'',
          payload = JObj [(''roomId'', JStr ''''), (''index'', JNum 4),
                          (''symbol'', JStr ''O'')] \<rparr>]
   \<and> field (JObj [(''roomId'', JStr ''''), (''index'', JNum 4), (''symbol'', JStr ''O'')])
         ''symbol'' = Some (JStr ''O'')"
proof -
  let ?as = "[Recv (State \<lparr> board = replicate 9 None, players = [''a'', ''b''], turn = SymO,
                             winnerLine = None \<rparr>),
              Play 4]"
  let ?e = "\<lparr> event = ''play'',
              payload = JObj [(''roomId'', JStr ''''), (''index'', JNum 4),
                              (''symbol'', JStr ''O'')] \<rparr>"
  note grant = joined_grants_symbol [of SymO initial ?as]
  have quiet: "\<forall>a \<in> set ?as. \<not> is_joined_msg a" by simp
  have emits: "snd (run (receive (Joined SymO) initial) ?as) = [?e]"
    by (simp add: step_def play_def receive_def on_joined_def on_state_def
          initial_def js_index_def)
  from grant quiet emits have "field (payload ?e) ''symbol'' = Some (JStr (mark_str SymO))"
    by simp
  with grant emits show ?thesis by simp
qed

text \<open>
  C6, as stated, fails: the component takes every \<^verbatim>\<open>joined\<close> message for a new grant.
  After \<^verbatim>\<open>joined{X}\<close>, a second message \<^verbatim>\<open>joined{O}\<close> replaces the own symbol, and the
  \<^verbatim>\<open>play\<close> intent emitted afterwards carries O, not the X granted first.
\<close>

theorem joined_regrant_counterexample:
  "symbol (receive (Joined SymX) initial) = Some SymX
   \<and> snd (run (receive (Joined SymX) initial)
             [Recv (Joined SymO),
              Recv (State \<lparr> board = replicate 9 None, players = [''a'', ''b''], turn = SymO,
                             winnerLine = None \<rparr>),
              Play 4])
     = [\<lparr> event = ''play'',
          payload = JObj [(''roomId'', JStr ''''), (''index'', JNum 4),
                          (''symbol'', JStr ''O'')] \<rparr>]
   \<and> field (JObj [(''roomId'', JStr ''''), (''index'', JNum 4), (''symbol'', JStr ''O'')])
         ''symbol'' \<noteq> Some (JStr (mark_str SymX))"
  by (simp add: step_def play_def receive_def on_joined_def on_state_def
        initial_def js_index_def)

section \<open>The initial state\<close>

text \<open>
  C7. Before any server message arrives, the local room state has a board of exactly nine
  cells, every one of them \<^verbatim>\<open>null\<close>, the turn is X and the player list is empty.
\<close>

theorem initial_room_state:
  "board (state initial) = replicate 9 None
   \<and> length (board (state initial)) = 9
   \<and> turn (state initial) = SymX
   \<and> players (state initial) = []"
  by (simp add: initial_def)

section \<open>Requests of the HTTP collaborator\<close>

text \<open>
  C8, as amended. With a configured base URL, \<^verbatim>\<open>fetchGameStatus\<close> issues exactly one
  request, a GET of the base URL followed by \<^verbatim>\<open>/status\<close>, and returns the parsed JSON
  body of the response. When \<^verbatim>\<open>JSON.stringify\<close> yields a string for the move data,
  \<^verbatim>\<open>sendMove\<close> issues exactly one request, a POST to the base URL followed by
  \<^verbatim>\<open>/move\<close> with the header \<^verbatim>\<open>Content-Type: application/json\<close> and that string as body,
  and returns the parsed JSON body of the response. When \<^verbatim>\<open>JSON.stringify\<close> throws,
  \<^verbatim>\<open>sendMove\<close> issues no request and fails with that error; when it yields
  \<^verbatim>\<open>undefined\<close>, the POST is issued without a body.
\<close>

theorem http_collaborator_requests:
  "fst (fetchGameStatus net parse (Some b)) =
     [\<lparr> url = b @ ''/status'', method = GET, headers = [], body = None \<rparr>]
   \<and> (net \<lparr> url = b @ ''/status'', method = GET, headers = [], body = None \<rparr> = Inr res
        \<and> parse res = Some v
      \<longrightarrow> snd (fetchGameStatus net parse (Some b)) = Inr v)
   \<and> (stringify moveData = Inr (Some js) \<longrightarrow>
        fst (sendMove net parse stringify (Some b) moveData) =
          [\<lparr> url = b @ ''/move'', method = POST,
             headers = [(''Content-Type'', ''application/json'')],
             body = Some js \<rparr>]
        \<and> (net \<lparr> url = b @ ''/move'', method = POST,
                  headers = [(''Content-Type'', ''application/json'')],
                  body = Some js \<rparr> = Inr res'
             \<and> parse res' = Some v'
           \<longrightarrow> snd (sendMove net parse stringify (Some b) moveData) = Inr v'))
   \<and> (stringify moveData = Inl e \<longrightarrow>
        sendMove net parse stringify (Some b) moveData = ([], Inl e))
   \<and> (stringify moveData = Inr None \<longrightarrow>
        fst (sendMove net parse stringify (Some b) moveData) =
          [\<lparr> url = b @ ''/move'', method = POST,
             headers = [(''Content-Type'', ''application/json'')],
             body = None \<rparr>])"
  by (simp add: fetchGameStatus_def sendMove_def Let_def)

theorem http_collaborator_requests_witness:
  "snd (fetchGameStatus (\<lambda>r. Inr (url r)) Some (Some ''http://h'')) = Inr ''http://h/status''
   \<and> fst (sendMove (\<lambda>r. Inr (url r)) Some (\<lambda>m. Inr (Some m)) (Some ''http://h'') ''move'')
       = [\<lparr> url = ''http://h/move'', method = POST,
            headers = [(''Content-Type'', ''application/json'')], body = Some ''move'' \<rparr>]
   \<and> snd (sendMove (\<lambda>r. Inr (url r)) Some (\<lambda>m. Inr (Some m)) (Some ''http://h'') ''move'')
       = Inr ''http://h/move''
   \<and> sendMove (\<lambda>r. Inr (url r)) Some (\<lambda>m. Inl StringifyTypeError) (Some ''http://h'') ''move''
       = ([], Inl StringifyTypeError)
   \<and> fst (sendMove (\<lambda>r. Inr (url r)) Some (\<lambda>m. Inr None) (Some ''http://h'') ''move'')
       = [\<lparr> url = ''http://h/move'', method = POST,
            headers = [(''Content-Type'', ''application/json'')], body = None \<rparr>]"
  using http_collaborator_requests
     [of "\<lambda>r. Inr (url r)" Some "''http://h''" "''http://h/status''" "''http://h/status''"
         "\<lambda>m. Inr (Some m)" "''move''" "''move''" "''http://h/move''" "''http://h/move''"]
    http_collaborator_requests
     [of "\<lambda>r. Inr (url r)" Some "''http://h''" "''http://h/status''" "''http://h/status''"
         "\<lambda>m. Inl StringifyTypeError" "''move''" "''move''" "''http://h/move''"
         "''http://h/move''" StringifyTypeError]
    http_collaborator_requests
     [of "\<lambda>r. Inr (url r)" Some "''http://h''" "''http://h/status''" "''http://h/status''"
         "\<lambda>m. Inr None" "''move''"]
  by simp

text \<open>
  C8, as stated, fails: \<^verbatim>\<open>sendMove\<close> accepts move data of any type, and for move data
  on which \<^verbatim>\<open>JSON.stringify\<close> throws (a BigInt such as \<^verbatim>\<open>10n\<close>, a cyclic object) it
  issues no POST at all and returns no parsed response, whatever the network would answer.
\<close>

theorem sendMove_unserialisable_counterexample:
  "fst (sendMove (\<lambda>r. Inr (url r)) Some (\<lambda>m. Inl StringifyTypeError)
          (Some ''http://h'') (10 :: int)) = []
   \<and> snd (sendMove (\<lambda>r. Inr (url r)) Some (\<lambda>m. Inl StringifyTypeError)
          (Some ''http://h'') (10 :: int)) = Inl StringifyTypeError"
  by (simp add: sendMove_def)

section \<open>Joining a room\<close>

text \<open>
  C9. \<^verbatim>\<open>joinRoom\<close> emits a \<^verbatim>\<open>join\<close> intent if and only if the room identifier is not
  empty after trimming, that is, if and only if it holds a character that is not white
  space; the identifier sent is the string as typed, not the trimmed one.
\<close>

theorem joinRoom_emits_iff_not_blank:
  "fst (joinRoom c) = c
   \<and> snd (joinRoom c) =
       (if trim (roomId c) \<noteq> [] then [\<lparr> event = ''join'', payload = JStr (roomId c) \<rparr>] else [])
   \<and> (trim (roomId c) \<noteq> [] \<longleftrightarrow> (\<exists>ch \<in> set (roomId c). \<not> js_whitespace ch))"
  using trim_nonempty_iff [of "roomId c"] by (simp add: joinRoom_def)

theorem joinRoom_emits_iff_not_blank_witness:
  "trim '' r1 '' = ''r1''
   \<and> snd (joinRoom (initial\<lparr> roomId := '' r1 '' \<rparr>)) = [\<lparr> event = ''join'', payload = JStr '' r1 '' \<rparr>]
   \<and> snd (joinRoom (initial\<lparr> roomId := ''   '' \<rparr>)) = []
   \<and> snd (joinRoom initial) = []"
  using joinRoom_emits_iff_not_blank [of "initial\<lparr> roomId := '' r1 '' \<rparr>"]
        joinRoom_emits_iff_not_blank [of "initial\<lparr> roomId := ''   '' \<rparr>"]
        joinRoom_emits_iff_not_blank [of initial]
  by (simp add: initial_def trim_def js_whitespace_def)

section \<open>Highlighting the winning line\<close>

text \<open>
  C10. The board renders one cell per board entry, and the cell at index \<open>i\<close> is
  highlighted if and only if the room state has a \<^verbatim>\<open>winnerLine\<close> that contains \<open>i\<close>;
  without a \<^verbatim>\<open>winnerLine\<close> no cell is highlighted.
\<close>

theorem highlight_iff_in_winnerLine:
  "length (cells st) = length (board st)
   \<and> (\<forall>i < length (board st).
        value (cells st ! i) = board st ! i
        \<and> (highlight (cells st ! i) \<longleftrightarrow> (\<exists>line. winnerLine st = Some line \<and> int i \<in> set line)))
   \<and> (winnerLine st = None \<longrightarrow> (\<forall>p \<in> set (cells st). \<not> highlight p))"
proof (intro conjI allI impI ballI)
  show "length (cells st) = length (board st)" by (simp add: cells_def)
next
  fix i assume "i < length (board st)"
  then show "value (cells st ! i) = board st ! i" by (simp add: cells_nth)
next
  fix i assume "i < length (board st)"
  then show "highlight (cells st ! i) \<longleftrightarrow> (\<exists>line. winnerLine st = Some line \<and> int i \<in> set line)"
    by (simp add: cells_nth cell_highlight_iff)
next
  fix p assume none: "winnerLine st = None" and "p \<in> set (cells st)"
  then obtain i where "i < length (cells st)" and "p = cells st ! i"
    by (metis in_set_conv_nth)
  then show "\<not> highlight p"
    using none by (simp add: cells_def cell_highlight_def)
qed

theorem highlight_iff_in_winnerLine_witness:
  "highlight (cells \<lparr> board = [Some ''X'', Some ''X'', Some ''X'', Some ''O'', Some ''O'',
                               None, None, None, None],
                      players = [''a'', ''b''], turn = SymO, winnerLine = Some [0, 1, 2] \<rparr> ! 1)
   \<and> \<not> highlight (cells \<lparr> board = [Some ''X'', Some ''X'', Some ''X'', Some ''O'', Some ''O'',
                                   None, None, None, None],
                          players = [''a'', ''b''], turn = SymO, winnerLine = Some [0, 1, 2] \<rparr> ! 3)
   \<and> \<not> highlight (cells (state initial) ! 4)"
proof -
  let ?st = "\<lparr> board = [Some ''X'', Some ''X'', Some ''X'', Some ''O'', Some ''O'',
                        None, None, None, None],
               players = [''a'', ''b''], turn = SymO, winnerLine = Some [0, 1, 2 :: int] \<rparr>"
  note won = highlight_iff_in_winnerLine [of ?st]
  note fresh = highlight_iff_in_winnerLine [of "state initial"]
  have "(1::nat) < length (board ?st)" and "(3::nat) < length (board ?st)" by simp_all
  with won have
    "highlight (cells ?st ! 1) \<longleftrightarrow> (\<exists>line. winnerLine ?st = Some line \<and> int 1 \<in> set line)"
    "highlight (cells ?st ! 3) \<longleftrightarrow> (\<exists>line. winnerLine ?st = Some line \<and> int 3 \<in> set line)"
    by blast+
  then have a: "highlight (cells ?st ! 1)" and b: "\<not> highlight (cells ?st ! 3)" by simp_all
  have "winnerLine (state initial) = None" and "4 < length (board (state initial))"
    by (simp_all add: initial_def)
  with fresh have "\<forall>p \<in> set (cells (state initial)). \<not> highlight p"
    and "4 < length (cells (state initial))" by simp_all
  then have c: "\<not> highlight (cells (state initial) ! 4)" by (meson nth_mem)
  from a b c show ?thesis by blast
qed

end
